theory Spec2Isabelle
  imports Complex_Main
begin

section \<open>Data model\<close>

text \<open>
  The commit engine of \<^verbatim>\<open>ReactCommon/fabric/uimanager/ShadowTree.cpp\<close>.
  Shadow nodes are shared, reference-counted objects whose identity the commit protocol
  compares, so they live in an explicit store: a list of node cells, a reference being the
  index of a cell. Allocation appends a cell, hence a new object never aliases an old one.
  A reference that is not an index of the store stands for a null or invalid pointer.
  The calls the engine makes on event emitters and on the delegate are recorded in a trace.
  A function that dereferences a null or invalid pointer has no result (\<open>None\<close>).
  Layout, sealing, the diff and the ancestor path resolver belong to other classes; they are
  parameters of the functions that call them. Locks are not modelled: every function is one
  sequential call.
\<close>

type_synonym ref = nat

type_synonym Float = real

record Size =
  width :: Float
  height :: Float

record Rect =
  origin :: "Float \<times> Float"
  size' :: Size

text \<open>
  Modelled from the spec: the declaration of \<^verbatim>\<open>LayoutMetrics\<close> is not part of this
  file. The engine reads \<^verbatim>\<open>frame.size\<close> and compares two metrics with \<^verbatim>\<open>==\<close>; the
  model keeps the frame and compares structurally (no NaN).
\<close>

record LayoutMetrics =
  frame :: Rect

definition EmptyLayoutMetrics :: LayoutMetrics where
  "EmptyLayoutMetrics = \<lparr>frame = \<lparr>origin = (0, 0), size' = \<lparr>width = 0, height = 0\<rparr>\<rparr>\<rparr>"

text \<open>
  Modelled from the spec: layout constraints and layout context are opaque values that the
  engine stores into the root's properties and never inspects.
\<close>

record LayoutConstraints =
  minimumSize :: Size
  maximumSize :: Size

record LayoutContext =
  absolutePosition :: "Float \<times> Float"

record ViewProps =
  onLayout :: bool

text \<open>
  The object behind a \<^verbatim>\<open>SharedProps\<close> pointer, tagged with its dynamic type.
  \<^verbatim>\<open>RootProps\<close> derives from \<^verbatim>\<open>ViewProps\<close>.
\<close>

datatype Props =
  BaseProps
| ViewPropsObj ViewProps
| RootPropsObj ViewProps LayoutConstraints LayoutContext

text \<open>\<^verbatim>\<open>std::dynamic_pointer_cast<const ViewProps>\<close>; \<open>None\<close> is the null pointer.\<close>

fun dynamic_pointer_cast_ViewProps :: "Props option \<Rightarrow> ViewProps option" where
  "dynamic_pointer_cast_ViewProps None = None"
| "dynamic_pointer_cast_ViewProps (Some BaseProps) = None"
| "dynamic_pointer_cast_ViewProps (Some (ViewPropsObj vp)) = Some vp"
| "dynamic_pointer_cast_ViewProps (Some (RootPropsObj vp lc ctx)) = Some vp"

text \<open>
  The \<^verbatim>\<open>RootProps(source, layoutConstraints, layoutContext)\<close> constructor. The source is
  statically a \<^verbatim>\<open>RootProps\<close>; any other object there is an invalid use (\<open>None\<close>).
\<close>

fun RootProps :: "Props \<Rightarrow> LayoutConstraints \<Rightarrow> LayoutContext \<Rightarrow> Props option" where
  "RootProps (RootPropsObj vp lc0 ctx0) lc ctx = Some (RootPropsObj vp lc ctx)"
| "RootProps BaseProps lc ctx = None"
| "RootProps (ViewPropsObj vp) lc ctx = None"

text \<open>
  The object behind a \<^verbatim>\<open>SharedEventEmitter\<close> pointer: its dynamic type and its
  identity.
\<close>

datatype EventEmitter =
  BaseEventEmitter nat
| ViewEventEmitter nat

text \<open>\<^verbatim>\<open>std::dynamic_pointer_cast<const ViewEventEmitter>\<close>.\<close>

fun dynamic_pointer_cast_ViewEventEmitter :: "EventEmitter option \<Rightarrow> EventEmitter option" where
  "dynamic_pointer_cast_ViewEventEmitter None = None"
| "dynamic_pointer_cast_ViewEventEmitter (Some (BaseEventEmitter i)) = None"
| "dynamic_pointer_cast_ViewEventEmitter (Some (ViewEventEmitter i)) = Some (ViewEventEmitter i)"

text \<open>
  \<^verbatim>\<open>ShadowNodeFragment\<close>: the fields a constructor or a clone replaces; an absent
  field (\<open>None\<close>) is taken from the source node.
\<close>

record ShadowNodeFragment =
  tag :: "int option"
  rootTag :: "int option"
  props :: "Props option"
  eventEmitter :: "EventEmitter option"
  children :: "ref list option"

definition noFragment :: ShadowNodeFragment where
  "noFragment = \<lparr>tag = None, rootTag = None, props = None, eventEmitter = None, children = None\<rparr>"

text \<open>A cell of the store: one \<^verbatim>\<open>ShadowNode\<close> object, named after its getters.\<close>

record ShadowNode =
  getTag :: int
  getRootTag :: int
  getProps :: Props
  getEventEmitter :: "EventEmitter option"
  getChildren :: "ref list"
  getLayoutMetrics :: LayoutMetrics
  getSealed :: bool

text \<open>
  \<^verbatim>\<open>ShadowView\<close>: the flat description of a node inside a mutation. A default
  constructed view has null props and a null event emitter.
\<close>

record ShadowView =
  tag :: int
  props :: "Props option"
  eventEmitter :: "EventEmitter option"
  layoutMetrics :: LayoutMetrics

definition emptyShadowView :: ShadowView where
  "emptyShadowView = \<lparr>tag = - 1, props = None, eventEmitter = None, layoutMetrics = EmptyLayoutMetrics\<rparr>"

datatype MutationType = Create | Delete | Insert | Remove | Update

record ShadowViewMutation =
  type :: MutationType
  parentShadowView :: ShadowView
  oldChildShadowView :: ShadowView
  newChildShadowView :: ShadowView
  index :: int

text \<open>What the engine does to the outside, in order.\<close>

datatype Effect =
  Enable EventEmitter
| Disable EventEmitter
| OnLayout EventEmitter LayoutMetrics
| ShadowTreeDidCommit nat "ShadowViewMutation list"

text \<open>
  The \<^verbatim>\<open>ShadowTree\<close> object with its members, together with the store of shadow
  nodes and the trace of effects.
\<close>

record ShadowTree =
  surfaceId_' :: int
  rootShadowNode_' :: ref
  delegate_' :: "nat option"
  store :: "ShadowNode list"
  trace :: "Effect list"

text \<open>
  The external collaborators, taken as parameters: the layout algorithm and the sealing of
  a subtree (both act on the store, given the node they are called on), the structural
  diff, and the ancestor path resolver (target first, then the ancestor to search from).
\<close>

record Collaborators =
  layout :: "ref \<Rightarrow> ShadowNode list \<Rightarrow> ShadowNode list"
  sealRecursive :: "ref \<Rightarrow> ShadowNode list \<Rightarrow> ShadowNode list"
  calculateShadowViewMutations :: "ShadowNode list \<Rightarrow> ref \<Rightarrow> ref \<Rightarrow> ShadowViewMutation list"
  constructAncestorPath :: "ShadowNode list \<Rightarrow> ref \<Rightarrow> ref \<Rightarrow> ref list"

section \<open>The store\<close>

definition deref :: "ShadowNode list \<Rightarrow> ref \<Rightarrow> ShadowNode option" where
  "deref h r = (if r < length h then Some (h ! r) else None)"

text \<open>\<^verbatim>\<open>std::make_shared\<close>: the new object gets the next free reference.\<close>

definition make_shared :: "ShadowNode \<Rightarrow> ShadowNode list \<Rightarrow> ref \<times> ShadowNode list" where
  "make_shared n h = (length h, h @ [n])"

text \<open>
  Modelled from the spec: the copy constructor of a node with a fragment (not part of this
  file) yields a new, unsealed node sharing every field the fragment leaves out.
\<close>

definition copyWithFragment :: "ShadowNode \<Rightarrow> ShadowNodeFragment \<Rightarrow> ShadowNode" where
  "copyWithFragment source fragment =
     \<lparr>getTag = (case ShadowNodeFragment.tag fragment of Some t \<Rightarrow> t | None \<Rightarrow> getTag source),
      getRootTag = (case rootTag fragment of Some t \<Rightarrow> t | None \<Rightarrow> getRootTag source),
      getProps = (case ShadowNodeFragment.props fragment of Some p \<Rightarrow> p | None \<Rightarrow> getProps source),
      getEventEmitter =
        (case ShadowNodeFragment.eventEmitter fragment of Some e \<Rightarrow> Some e
         | None \<Rightarrow> getEventEmitter source),
      getChildren = (case children fragment of Some cs \<Rightarrow> cs | None \<Rightarrow> getChildren source),
      getLayoutMetrics = getLayoutMetrics source,
      getSealed = False\<rparr>"

text \<open>\<^verbatim>\<open>ShadowNode::clone(fragment)\<close> on the node behind a reference.\<close>

definition clone :: "ref \<Rightarrow> ShadowNodeFragment \<Rightarrow> ShadowNode list \<Rightarrow> (ref \<times> ShadowNode list) option" where
  "clone r fragment h =
     (case deref h r of
        None \<Rightarrow> None
      | Some source \<Rightarrow> Some (make_shared (copyWithFragment source fragment) h))"

section \<open>Event emitters\<close>

text \<open>The two loops of \<^verbatim>\<open>toggleEventEmitters\<close>, each over the whole list.\<close>

fun enableCreated :: "ShadowViewMutation list \<Rightarrow> Effect list \<Rightarrow> Effect list option" where
  "enableCreated [] tr = Some tr"
| "enableCreated (mutation # mutations) tr =
     (if type mutation = Create then
        (case eventEmitter (newChildShadowView mutation) of
           None \<Rightarrow> None
         | Some e \<Rightarrow> enableCreated mutations (tr @ [Enable e]))
      else enableCreated mutations tr)"

fun disableDeleted :: "ShadowViewMutation list \<Rightarrow> Effect list \<Rightarrow> Effect list option" where
  "disableDeleted [] tr = Some tr"
| "disableDeleted (mutation # mutations) tr =
     (if type mutation = Delete then
        (case eventEmitter (oldChildShadowView mutation) of
           None \<Rightarrow> None
         | Some e \<Rightarrow> disableDeleted mutations (tr @ [Disable e]))
      else disableDeleted mutations tr)"

definition toggleEventEmitters :: "ShadowViewMutation list \<Rightarrow> ShadowTree \<Rightarrow> ShadowTree option" where
  "toggleEventEmitters mutations t =
     (case enableCreated mutations (trace t) of
        None \<Rightarrow> None
      | Some tr1 \<Rightarrow>
          (case disableDeleted mutations tr1 of
             None \<Rightarrow> None
           | Some tr2 \<Rightarrow> Some (t\<lparr>trace := tr2\<rparr>)))"

section \<open>Layout events\<close>

text \<open>
  The body of the loop of \<^verbatim>\<open>emitLayoutEvents\<close> for one mutation: the call it makes,
  or \<open>None\<close> where it reaches a \<^verbatim>\<open>continue\<close>.
\<close>

definition emitLayoutEvent :: "ShadowViewMutation \<Rightarrow> Effect option" where
  "emitLayoutEvent mutation =
     (if type mutation \<noteq> Insert \<and> type mutation \<noteq> Update then None
      else
        (case dynamic_pointer_cast_ViewEventEmitter (eventEmitter (newChildShadowView mutation)) of
           None \<Rightarrow> None
         | Some viewEventEmitter \<Rightarrow>
             (let viewProps = dynamic_pointer_cast_ViewProps (props (newChildShadowView mutation)) in
              if (case viewProps of None \<Rightarrow> False | Some vp \<Rightarrow> \<not> onLayout vp) then None
              else if type mutation \<noteq> Update \<and>
                      layoutMetrics (oldChildShadowView mutation) =
                        layoutMetrics (newChildShadowView mutation)
              then None
              else Some (OnLayout viewEventEmitter (layoutMetrics (newChildShadowView mutation))))))"

fun emitLayoutEvents :: "ShadowViewMutation list \<Rightarrow> ShadowTree \<Rightarrow> ShadowTree" where
  "emitLayoutEvents [] t = t"
| "emitLayoutEvents (mutation # mutations) t =
     emitLayoutEvents mutations
       (case emitLayoutEvent mutation of
          None \<Rightarrow> t
        | Some call \<Rightarrow> t\<lparr>trace := trace t @ [call]\<rparr>)"

section \<open>Committing\<close>

definition getRootShadowNode :: "ShadowTree \<Rightarrow> ref" where
  "getRootShadowNode t = rootShadowNode_' t"

definition commit ::
  "ref \<Rightarrow> ref \<Rightarrow> ShadowViewMutation list \<Rightarrow> ShadowTree \<Rightarrow> (bool \<times> ShadowTree) option" where
  "commit oldRootShadowNode newRootShadowNode mutations t =
     (if oldRootShadowNode \<noteq> rootShadowNode_' t then Some (False, t)
      else
        (case toggleEventEmitters mutations (t\<lparr>rootShadowNode_' := newRootShadowNode\<rparr>) of
           None \<Rightarrow> None
         | Some t' \<Rightarrow> Some (True, t')))"

text \<open>The overload \<^verbatim>\<open>complete(oldRootShadowNode, newRootShadowNode)\<close>.\<close>

definition complete_roots :: "Collaborators \<Rightarrow> ref \<Rightarrow> ref \<Rightarrow> ShadowTree \<Rightarrow> (bool \<times> ShadowTree) option" where
  "complete_roots E oldRootShadowNode newRootShadowNode t =
     (let t1 = t\<lparr>store := layout E newRootShadowNode (store t)\<rparr>;
          t2 = t1\<lparr>store := sealRecursive E newRootShadowNode (store t1)\<rparr>;
          mutations = calculateShadowViewMutations E (store t2) oldRootShadowNode newRootShadowNode
      in case commit oldRootShadowNode newRootShadowNode mutations t2 of
           None \<Rightarrow> None
         | Some (False, t3) \<Rightarrow> Some (False, t3)
         | Some (True, t3) \<Rightarrow>
             (let t4 = emitLayoutEvents mutations t3;
                  t5 = (case delegate_' t4 of
                          None \<Rightarrow> t4
                        | Some d \<Rightarrow> t4\<lparr>trace := trace t4 @ [ShadowTreeDidCommit d mutations]\<rparr>)
              in Some (True, t5)))"

section \<open>Entry points\<close>

definition cloneRootShadowNode ::
  "ref \<Rightarrow> LayoutConstraints \<Rightarrow> LayoutContext \<Rightarrow> ShadowNode list \<Rightarrow> (ref \<times> ShadowNode list) option" where
  "cloneRootShadowNode oldRootShadowNode layoutConstraints layoutContext h =
     (case deref h oldRootShadowNode of
        None \<Rightarrow> None
      | Some source \<Rightarrow>
          (case RootProps (getProps source) layoutConstraints layoutContext of
             None \<Rightarrow> None
           | Some props' \<Rightarrow>
               Some (make_shared (copyWithFragment source (noFragment\<lparr>ShadowNodeFragment.props := Some props'\<rparr>)) h)))"

definition measure' ::
  "Collaborators \<Rightarrow> LayoutConstraints \<Rightarrow> LayoutContext \<Rightarrow> ShadowTree \<Rightarrow> (Size \<times> ShadowTree) option" where
  "measure' E layoutConstraints layoutContext t =
     (case cloneRootShadowNode (getRootShadowNode t) layoutConstraints layoutContext (store t) of
        None \<Rightarrow> None
      | Some (newRootShadowNode, h) \<Rightarrow>
          (let h' = layout E newRootShadowNode h in
           case deref h' newRootShadowNode of
             None \<Rightarrow> None
           | Some n \<Rightarrow> Some (size' (frame (getLayoutMetrics n)), t\<lparr>store := h'\<rparr>)))"

definition constraintLayout ::
  "Collaborators \<Rightarrow> LayoutConstraints \<Rightarrow> LayoutContext \<Rightarrow> ShadowTree \<Rightarrow> (bool \<times> ShadowTree) option" where
  "constraintLayout E layoutConstraints layoutContext t =
     (let oldRootShadowNode = getRootShadowNode t in
      case cloneRootShadowNode oldRootShadowNode layoutConstraints layoutContext (store t) of
        None \<Rightarrow> None
      | Some (newRootShadowNode, h) \<Rightarrow>
          complete_roots E oldRootShadowNode newRootShadowNode (t\<lparr>store := h\<rparr>))"

text \<open>The overload \<^verbatim>\<open>complete(rootChildNodes)\<close>; a null list leaves the fragment's children absent.\<close>

definition complete_children ::
  "Collaborators \<Rightarrow> ref list option \<Rightarrow> ShadowTree \<Rightarrow> (bool \<times> ShadowTree) option" where
  "complete_children E rootChildNodes t =
     (let oldRootShadowNode = getRootShadowNode t in
      case deref (store t) oldRootShadowNode of
        None \<Rightarrow> None
      | Some source \<Rightarrow>
          (case make_shared (copyWithFragment source (noFragment\<lparr>children := rootChildNodes\<rparr>)) (store t) of
             (newRootShadowNode, h) \<Rightarrow>
               complete_roots E oldRootShadowNode newRootShadowNode (t\<lparr>store := h\<rparr>)))"

text \<open>\<^verbatim>\<open>std::replace\<close> on a vector of shared pointers.\<close>

definition replace :: "ref list \<Rightarrow> ref \<Rightarrow> ref \<Rightarrow> ref list" where
  "replace cs oldChild newChild = map (\<lambda>c. if c = oldChild then newChild else c) cs"

text \<open>
  The loop of \<^verbatim>\<open>completeByReplacingShadowNode\<close> over the ancestors, carrying
  \<^verbatim>\<open>oldChild\<close>, \<^verbatim>\<open>newChild\<close> and \<^verbatim>\<open>sharedChildren\<close> (null before the first round).
\<close>

fun rebuildAncestors ::
  "ref list \<Rightarrow> ref \<Rightarrow> ref \<Rightarrow> ref list option \<Rightarrow> ShadowNode list \<Rightarrow>
     (ref list option \<times> ShadowNode list) option" where
  "rebuildAncestors [] oldChild newChild sharedChildren h = Some (sharedChildren, h)"
| "rebuildAncestors (ancestor # ancestors) oldChild newChild sharedChildren h =
     (case deref h ancestor of
        None \<Rightarrow> None
      | Some a \<Rightarrow>
          (let children' = replace (getChildren a) oldChild newChild;
               sharedChildren' = Some children'
           in case clone ancestor (noFragment\<lparr>children := sharedChildren'\<rparr>) h of
                None \<Rightarrow> None
              | Some (newChild', h') \<Rightarrow>
                  rebuildAncestors ancestors ancestor newChild' sharedChildren' h'))"

definition completeByReplacingShadowNode ::
  "Collaborators \<Rightarrow> ref \<Rightarrow> ref \<Rightarrow> ShadowTree \<Rightarrow> (bool \<times> ShadowTree) option" where
  "completeByReplacingShadowNode E oldShadowNode newShadowNode t =
     (let rootShadowNode = getRootShadowNode t;
          ancestors = constructAncestorPath E (store t) oldShadowNode rootShadowNode
      in if length ancestors = 0 then Some (False, t)
         else
           (case rebuildAncestors ancestors oldShadowNode newShadowNode None (store t) of
              None \<Rightarrow> None
            | Some (sharedChildren, h) \<Rightarrow> complete_children E sharedChildren (t\<lparr>store := h\<rparr>)))"

text \<open>The destructor: a last commit of an empty child list.\<close>

definition ShadowTree_destructor :: "Collaborators \<Rightarrow> ShadowTree \<Rightarrow> (bool \<times> ShadowTree) option" where
  "ShadowTree_destructor E t = complete_children E (Some []) t"

section \<open>Vocabulary of the statements\<close>

text \<open>The emitters the first loop enables and the second loop disables, in list order.\<close>

definition createdEmitters :: "ShadowViewMutation list \<Rightarrow> EventEmitter list" where
  "createdEmitters mutations =
     List.map_filter
       (\<lambda>m. if type m = Create then eventEmitter (newChildShadowView m) else None) mutations"

definition deletedEmitters :: "ShadowViewMutation list \<Rightarrow> EventEmitter list" where
  "deletedEmitters mutations =
     List.map_filter
       (\<lambda>m. if type m = Delete then eventEmitter (oldChildShadowView m) else None) mutations"

text \<open>
  No toggled emitter pointer is null: the condition under which
  \<^verbatim>\<open>toggleEventEmitters\<close> dereferences only valid pointers.
\<close>

definition emittersPresent :: "ShadowViewMutation list \<Rightarrow> bool" where
  "emittersPresent mutations =
     list_all
       (\<lambda>m. (type m = Create \<longrightarrow> eventEmitter (newChildShadowView m) \<noteq> None) \<and>
            (type m = Delete \<longrightarrow> eventEmitter (oldChildShadowView m) \<noteq> None)) mutations"

fun isEnable :: "Effect \<Rightarrow> bool" where
  "isEnable (Enable e) = True"
| "isEnable _ = False"

fun isDisable :: "Effect \<Rightarrow> bool" where
  "isDisable (Disable e) = True"
| "isDisable _ = False"

text \<open>The calls made by the notifier since a given trace.\<close>

definition callsSince :: "ShadowTree \<Rightarrow> ShadowTree \<Rightarrow> Effect list" where
  "callsSince t t' = drop (length (trace t)) (trace t')"

text \<open>
  Contracts of the external layout and sealing: no object is deallocated, and the child
  list of the node they are called on is left as it is.
\<close>

definition keepsAllocated :: "(ref \<Rightarrow> ShadowNode list \<Rightarrow> ShadowNode list) \<Rightarrow> bool" where
  "keepsAllocated f = (\<forall>r h. length h \<le> length (f r h))"

definition keepsChildren :: "(ref \<Rightarrow> ShadowNode list \<Rightarrow> ShadowNode list) \<Rightarrow> bool" where
  "keepsChildren f = (\<forall>r h. r < length h \<longrightarrow> getChildren (f r h ! r) = getChildren (h ! r))"

text \<open>Contract of the external diff: it reports no created or deleted view without emitter.\<close>

definition diffEmittersPresent :: "Collaborators \<Rightarrow> bool" where
  "diffEmittersPresent E = (\<forall>h a b. emittersPresent (calculateShadowViewMutations E h a b))"

section \<open>Example data\<close>

text \<open>
  Modelled from the spec: the factory functions of \<^verbatim>\<open>ShadowViewMutation\<close> (not part of
  this file); a view that a mutation does not carry is default constructed.
\<close>

definition CreateMutation :: "ShadowView \<Rightarrow> ShadowView \<Rightarrow> int \<Rightarrow> ShadowViewMutation" where
  "CreateMutation parent child i =
     \<lparr>type = Create, parentShadowView = parent, oldChildShadowView = emptyShadowView,
      newChildShadowView = child, index = i\<rparr>"

definition DeleteMutation :: "ShadowView \<Rightarrow> ShadowView \<Rightarrow> int \<Rightarrow> ShadowViewMutation" where
  "DeleteMutation parent child i =
     \<lparr>type = Delete, parentShadowView = parent, oldChildShadowView = child,
      newChildShadowView = emptyShadowView, index = i\<rparr>"

definition InsertMutation :: "ShadowView \<Rightarrow> ShadowView \<Rightarrow> int \<Rightarrow> ShadowViewMutation" where
  "InsertMutation parent child i =
     \<lparr>type = Insert, parentShadowView = parent, oldChildShadowView = emptyShadowView,
      newChildShadowView = child, index = i\<rparr>"

definition UpdateMutation :: "ShadowView \<Rightarrow> ShadowView \<Rightarrow> ShadowView \<Rightarrow> int \<Rightarrow> ShadowViewMutation" where
  "UpdateMutation parent oldChild newChild i =
     \<lparr>type = Update, parentShadowView = parent, oldChildShadowView = oldChild,
      newChildShadowView = newChild, index = i\<rparr>"

definition metricsOfSize :: "Float \<Rightarrow> Float \<Rightarrow> LayoutMetrics" where
  "metricsOfSize w h = \<lparr>frame = \<lparr>origin = (0, 0), size' = \<lparr>width = w, height = h\<rparr>\<rparr>\<rparr>"

text \<open>A view with a layout-capable emitter whose props ask for layout events.\<close>

definition viewA :: ShadowView where
  "viewA = \<lparr>tag = 2, props = Some (ViewPropsObj \<lparr>onLayout = True\<rparr>),
            eventEmitter = Some (ViewEventEmitter 2), layoutMetrics = metricsOfSize 10 20\<rparr>"

text \<open>The same view after a layout that moved nothing, and after one that resized it.\<close>

definition viewA_resized :: ShadowView where
  "viewA_resized = viewA\<lparr>layoutMetrics := metricsOfSize 30 20\<rparr>"

text \<open>A view with a layout-capable emitter whose props are not view props.\<close>

definition viewB :: ShadowView where
  "viewB = \<lparr>tag = 3, props = Some BaseProps,
            eventEmitter = Some (ViewEventEmitter 3), layoutMetrics = metricsOfSize 5 5\<rparr>"

definition rootView :: ShadowView where
  "rootView = \<lparr>tag = 1, props = None, eventEmitter = Some (ViewEventEmitter 0),
               layoutMetrics = EmptyLayoutMetrics\<rparr>"

text \<open>A batch that deletes one view and creates another, the deletion listed first.\<close>

definition deleteThenCreate :: "ShadowViewMutation list" where
  "deleteThenCreate = [DeleteMutation rootView viewB 0, CreateMutation rootView viewA 0,
                       InsertMutation rootView viewA 0]"

text \<open>
  A store with three leaves \<open>0\<close>, \<open>1\<close>, \<open>2\<close>, the root \<open>3\<close> over them, and a detached
  node \<open>4\<close>.
\<close>

definition leafNode :: "int \<Rightarrow> ShadowNode" where
  "leafNode i =
     \<lparr>getTag = i, getRootTag = 1, getProps = ViewPropsObj \<lparr>onLayout = True\<rparr>,
      getEventEmitter = Some (ViewEventEmitter (nat i)), getChildren = [],
      getLayoutMetrics = EmptyLayoutMetrics, getSealed = True\<rparr>"

definition rootNode :: ShadowNode where
  "rootNode =
     \<lparr>getTag = 1, getRootTag = 1,
      getProps = RootPropsObj \<lparr>onLayout = False\<rparr>
                   \<lparr>minimumSize = \<lparr>width = 0, height = 0\<rparr>, maximumSize = \<lparr>width = 100, height = 100\<rparr>\<rparr>
                   \<lparr>absolutePosition = (0, 0)\<rparr>,
      getEventEmitter = Some (ViewEventEmitter 0), getChildren = [0, 1, 2],
      getLayoutMetrics = EmptyLayoutMetrics, getSealed = True\<rparr>"

definition exampleStore :: "ShadowNode list" where
  "exampleStore = [leafNode 2, leafNode 3, leafNode 4, rootNode, (leafNode 5)\<lparr>getSealed := False\<rparr>]"

definition exampleTree :: ShadowTree where
  "exampleTree =
     \<lparr>surfaceId_' = 1, rootShadowNode_' = 3, delegate_' = Some 0, store = exampleStore, trace = []\<rparr>"

text \<open>
  Modelled from the spec: an ancestor path resolver (the one of the node class is not part
  of this file). It searches the subtree of \<open>ancestor\<close> depth first and answers the chain
  of ancestors of the target, nearest first, ending with \<open>ancestor\<close>; the path is empty
  when the target is \<open>ancestor\<close> itself, and there is none when the target is absent.
\<close>

fun findAncestors :: "nat \<Rightarrow> ShadowNode list \<Rightarrow> ref \<Rightarrow> ref \<Rightarrow> ref list option" where
  "findAncestors 0 h target ancestor = None"
| "findAncestors (Suc fuel) h target ancestor =
     (if target = ancestor then Some []
      else
        (case deref h ancestor of
           None \<Rightarrow> None
         | Some a \<Rightarrow>
             (case List.map_filter (\<lambda>c. findAncestors fuel h target c) (getChildren a) of
                [] \<Rightarrow> None
              | path # others \<Rightarrow> Some (path @ [ancestor]))))"

definition resolveAncestorPath :: "ShadowNode list \<Rightarrow> ref \<Rightarrow> ref \<Rightarrow> ref list" where
  "resolveAncestorPath h target ancestor =
     (case findAncestors (Suc (length h)) h target ancestor of None \<Rightarrow> [] | Some path \<Rightarrow> path)"

text \<open>
  Example collaborators: a layout that gives the node a fixed frame, a sealing that marks
  every cell, a diff that always reports the batch above, and the resolver above.
\<close>

definition exampleCollaborators :: Collaborators where
  "exampleCollaborators =
     \<lparr>layout = (\<lambda>r h. if r < length h then h[r := (h ! r)\<lparr>getLayoutMetrics := metricsOfSize 100 50\<rparr>] else h),
      sealRecursive = (\<lambda>r h. map (\<lambda>n. n\<lparr>getSealed := True\<rparr>) h),
      calculateShadowViewMutations = (\<lambda>h a b. deleteThenCreate),
      constructAncestorPath = resolveAncestorPath\<rparr>"

text \<open>
  Modelled from the spec: the view of a node (the constructor of \<^verbatim>\<open>ShadowView\<close> from a
  node is not part of this file), and a diff of the child lists of two nodes that reports
  each child only the old node has as removed and deleted, and each child only the new node
  has as created and inserted.
\<close>

definition RemoveMutation :: "ShadowView \<Rightarrow> ShadowView \<Rightarrow> int \<Rightarrow> ShadowViewMutation" where
  "RemoveMutation parent child i =
     \<lparr>type = Remove, parentShadowView = parent, oldChildShadowView = child,
      newChildShadowView = emptyShadowView, index = i\<rparr>"

definition shadowViewOf :: "ShadowNode \<Rightarrow> ShadowView" where
  "shadowViewOf n =
     \<lparr>tag = getTag n, props = Some (getProps n), eventEmitter = getEventEmitter n,
      layoutMetrics = getLayoutMetrics n\<rparr>"

definition hasEmitter :: "ShadowNode list \<Rightarrow> ref \<Rightarrow> bool" where
  "hasEmitter h c = (case deref h c of None \<Rightarrow> False | Some n \<Rightarrow> getEventEmitter n \<noteq> None)"

definition childDiff :: "ShadowNode list \<Rightarrow> ref \<Rightarrow> ref \<Rightarrow> ShadowViewMutation list" where
  "childDiff h a b =
     (case deref h a of
        None \<Rightarrow> []
      | Some oldN \<Rightarrow>
          (case deref h b of
             None \<Rightarrow> []
           | Some newN \<Rightarrow>
               concat (map (\<lambda>c. [RemoveMutation (shadowViewOf oldN) (shadowViewOf (h ! c)) 0,
                                 DeleteMutation (shadowViewOf oldN) (shadowViewOf (h ! c)) 0])
                         (filter (\<lambda>c. c \<notin> set (getChildren newN) \<and> hasEmitter h c) (getChildren oldN))) @
               concat (map (\<lambda>c. [CreateMutation (shadowViewOf newN) (shadowViewOf (h ! c)) 0,
                                 InsertMutation (shadowViewOf newN) (shadowViewOf (h ! c)) 0])
                         (filter (\<lambda>c. c \<notin> set (getChildren oldN) \<and> hasEmitter h c) (getChildren newN)))))"

definition treeCollaborators :: Collaborators where
  "treeCollaborators = exampleCollaborators\<lparr>calculateShadowViewMutations := childDiff\<rparr>"

text \<open>Layout inputs for a measurement.\<close>

definition exampleConstraints :: LayoutConstraints where
  "exampleConstraints =
     \<lparr>minimumSize = \<lparr>width = 0, height = 0\<rparr>, maximumSize = \<lparr>width = 320, height = 480\<rparr>\<rparr>"

definition exampleContext :: LayoutContext where
  "exampleContext = \<lparr>absolutePosition = (0, 0)\<rparr>"

text \<open>What that diff reports when the root of the example store loses all its children.\<close>

definition teardownMutations :: "ShadowViewMutation list" where
  "teardownMutations =
     [RemoveMutation (shadowViewOf rootNode) (shadowViewOf (leafNode 2)) 0,
      DeleteMutation (shadowViewOf rootNode) (shadowViewOf (leafNode 2)) 0,
      RemoveMutation (shadowViewOf rootNode) (shadowViewOf (leafNode 3)) 0,
      DeleteMutation (shadowViewOf rootNode) (shadowViewOf (leafNode 3)) 0,
      RemoveMutation (shadowViewOf rootNode) (shadowViewOf (leafNode 4)) 0,
      DeleteMutation (shadowViewOf rootNode) (shadowViewOf (leafNode 4)) 0]"

section \<open>Facts about the example data\<close>

lemma ex_deleteThenCreate [simp]:
  "emittersPresent deleteThenCreate"
  "createdEmitters deleteThenCreate = [ViewEventEmitter 2]"
  "deletedEmitters deleteThenCreate = [ViewEventEmitter 3]"
  by (simp_all add: emittersPresent_def createdEmitters_def deletedEmitters_def deleteThenCreate_def
      DeleteMutation_def CreateMutation_def InsertMutation_def viewA_def viewB_def rootView_def
      emptyShadowView_def)

lemma ex_layoutEvents [simp]:
  "List.map_filter emitLayoutEvent deleteThenCreate = [OnLayout (ViewEventEmitter 2) (metricsOfSize 10 20)]"
  by (simp add: deleteThenCreate_def DeleteMutation_def CreateMutation_def InsertMutation_def
      emitLayoutEvent_def viewA_def viewB_def rootView_def emptyShadowView_def
      EmptyLayoutMetrics_def metricsOfSize_def)

lemma ex_root: "deref (store exampleTree) (rootShadowNode_' exampleTree) = Some rootNode"
  by (simp add: exampleTree_def exampleStore_def deref_def)

lemma ex_path_detached: "resolveAncestorPath exampleStore 4 3 = []"
  by code_simp

lemma ex_path_middle: "resolveAncestorPath exampleStore 1 3 = [3]"
  by code_simp

lemma ex_keeps:
  "keepsAllocated (layout exampleCollaborators)"
  "keepsChildren (layout exampleCollaborators)"
  "keepsChildren (sealRecursive exampleCollaborators)"
  by (simp_all add: keepsAllocated_def keepsChildren_def exampleCollaborators_def)

lemma ex_layout: "layout exampleCollaborators r h =
    (if r < length h then h[r := (h ! r)\<lparr>getLayoutMetrics := metricsOfSize 100 50\<rparr>] else h)"
  by (simp add: exampleCollaborators_def)

lemma childDiff_emittersPresent: "emittersPresent (childDiff h a b)"
  by (auto simp: childDiff_def emittersPresent_def list_all_iff hasEmitter_def deref_def
      CreateMutation_def DeleteMutation_def InsertMutation_def RemoveMutation_def shadowViewOf_def
      split: option.splits if_splits)

lemma tree_keeps:
  "keepsAllocated (layout treeCollaborators)"
  "keepsChildren (layout treeCollaborators)"
  "keepsChildren (sealRecursive treeCollaborators)"
  "diffEmittersPresent treeCollaborators"
  using ex_keeps
  by (simp_all add: treeCollaborators_def diffEmittersPresent_def childDiff_emittersPresent)

lemma ex_teardown_diff:
  "childDiff
      (sealRecursive treeCollaborators 5 (layout treeCollaborators 5
         (exampleStore @ [copyWithFragment rootNode (noFragment\<lparr>children := Some []\<rparr>)]))) 3 5
   = teardownMutations"
  by (simp add: treeCollaborators_def exampleCollaborators_def exampleStore_def childDiff_def
      deref_def rootNode_def leafNode_def copyWithFragment_def noFragment_def hasEmitter_def
      shadowViewOf_def teardownMutations_def)

lemma ex_teardown_calls:
  "createdEmitters teardownMutations = []"
  "deletedEmitters teardownMutations = [ViewEventEmitter 2, ViewEventEmitter 3, ViewEventEmitter 4]"
  "List.map_filter emitLayoutEvent teardownMutations = []"
  by (simp_all add: createdEmitters_def deletedEmitters_def RemoveMutation_def DeleteMutation_def
      shadowViewOf_def leafNode_def teardownMutations_def emitLayoutEvent_def)

section \<open>Event emitter toggling\<close>

lemma enableCreated_closed:
  "enableCreated ms tr =
     (if list_all (\<lambda>m. type m = Create \<longrightarrow> eventEmitter (newChildShadowView m) \<noteq> None) ms
      then Some (tr @ map Enable (createdEmitters ms)) else None)"
  by (induction ms arbitrary: tr) (auto simp: createdEmitters_def split: option.splits)

lemma disableDeleted_closed:
  "disableDeleted ms tr =
     (if list_all (\<lambda>m. type m = Delete \<longrightarrow> eventEmitter (oldChildShadowView m) \<noteq> None) ms
      then Some (tr @ map Disable (deletedEmitters ms)) else None)"
  by (induction ms arbitrary: tr) (auto simp: deletedEmitters_def split: option.splits)

lemma toggleEventEmitters_closed:
  "toggleEventEmitters ms t =
     (if emittersPresent ms
      then Some (t\<lparr>trace := trace t @ map Enable (createdEmitters ms) @ map Disable (deletedEmitters ms)\<rparr>)
      else None)"
  by (auto simp: toggleEventEmitters_def enableCreated_closed disableDeleted_closed
        emittersPresent_def list_all_iff)

lemma enables_before_disables:
  assumes "i < j" and "j < length (map Enable es @ map Disable ds)"
    and "isDisable ((map Enable es @ map Disable ds) ! i)"
  shows "\<not> isEnable ((map Enable es @ map Disable ds) ! j)"
proof -
  have "\<not> i < length es"
    using assms(3) by (auto simp: nth_append)
  then have "\<not> j < length es"
    using assms(1) by simp
  then show ?thesis
    using assms(2) by (auto simp: nth_append)
qed

text \<open>
  Claim C5. Whatever the mutation list, the toggling makes two complete passes: the calls
  it adds to the trace are the enables of the new emitters of all Create mutations, in list
  order, followed by the disables of the old emitters of all Delete mutations, in list order;
  so no enable comes after a disable of the same batch. The toggled emitter pointers must not
  be null (the code dereferences them unchecked).
\<close>

theorem toggleEventEmitters_two_passes:
  assumes "emittersPresent mutations"
  shows "\<exists>calls. toggleEventEmitters mutations t = Some (t\<lparr>trace := trace t @ calls\<rparr>) \<and>
           calls = map Enable (createdEmitters mutations) @ map Disable (deletedEmitters mutations) \<and>
           (\<forall>i j. i < j \<and> j < length calls \<and> isDisable (calls ! i) \<longrightarrow> \<not> isEnable (calls ! j))"
  using assms enables_before_disables
  by (simp add: toggleEventEmitters_closed) blast

theorem toggleEventEmitters_two_passes_witness:
  "emittersPresent deleteThenCreate \<and>
   toggleEventEmitters deleteThenCreate exampleTree =
     Some (exampleTree\<lparr>trace := [Enable (ViewEventEmitter 2), Disable (ViewEventEmitter 3)]\<rparr>)"
  using toggleEventEmitters_two_passes [of deleteThenCreate exampleTree]
  by (simp add: exampleTree_def)

section \<open>The commit\<close>

text \<open>
  Claim C1. If the old root handed to \<^verbatim>\<open>commit\<close> is not the very object in the root
  slot, the call answers false and changes nothing at all. If it is, the slot holds the new
  root afterwards, the toggling has run over the mutation list (its calls are appended to the
  trace), and the call answers true.
\<close>

theorem commit_identity_check:
  "(oldRootShadowNode \<noteq> rootShadowNode_' t \<longrightarrow>
      commit oldRootShadowNode newRootShadowNode mutations t = Some (False, t)) \<and>
   (oldRootShadowNode = rootShadowNode_' t \<and> emittersPresent mutations \<longrightarrow>
      commit oldRootShadowNode newRootShadowNode mutations t =
        Some (True, t\<lparr>rootShadowNode_' := newRootShadowNode,
                      trace := trace t @ map Enable (createdEmitters mutations) @
                                 map Disable (deletedEmitters mutations)\<rparr>))"
  by (simp add: commit_def toggleEventEmitters_closed)

theorem commit_identity_check_witness:
  "(0 \<noteq> rootShadowNode_' exampleTree \<and>
    commit 0 4 deleteThenCreate exampleTree = Some (False, exampleTree)) \<and>
   (3 = rootShadowNode_' exampleTree \<and> emittersPresent deleteThenCreate \<and>
    commit 3 4 deleteThenCreate exampleTree =
      Some (True, exampleTree\<lparr>rootShadowNode_' := 4,
                   trace := [Enable (ViewEventEmitter 2), Disable (ViewEventEmitter 3)]\<rparr>))"
  using commit_identity_check [of 0 exampleTree 4 deleteThenCreate]
    commit_identity_check [of 3 exampleTree 4 deleteThenCreate]
  by (simp add: exampleTree_def)

section \<open>Layout events\<close>

lemma emitLayoutEvents_closed:
  "emitLayoutEvents ms t = t\<lparr>trace := trace t @ List.map_filter emitLayoutEvent ms\<rparr>"
  by (induction ms arbitrary: t) (auto split: option.splits)

lemma callsSince_emitLayoutEvents:
  "callsSince t (emitLayoutEvents ms t) = List.map_filter emitLayoutEvent ms"
  by (simp add: callsSince_def emitLayoutEvents_closed)

lemma map_filter_member:
  "m \<in> set ms \<Longrightarrow> f m = Some y \<Longrightarrow> y \<in> set (List.map_filter f ms)"
  by (force simp: List.map_filter_def)

text \<open>
  Claim C3, as the code has it. The notifier skips every mutation that is neither Insert nor
  Update, so a Create mutation never reaches the layout callback. For an Insert mutation
  whose new emitter is a view event emitter, whose new props are view props that ask for
  layout events, and whose old and new layout metrics differ, the callback is invoked on
  that emitter with the new layout metrics.
\<close>

theorem emitLayoutEvents_Insert_changed_metrics:
  assumes "m \<in> set mutations"
    and "type m = Insert"
    and "dynamic_pointer_cast_ViewEventEmitter (eventEmitter (newChildShadowView m)) = Some e"
    and "dynamic_pointer_cast_ViewProps (props (newChildShadowView m)) = Some vp"
    and "onLayout vp"
    and "layoutMetrics (oldChildShadowView m) \<noteq> layoutMetrics (newChildShadowView m)"
  shows "OnLayout e (layoutMetrics (newChildShadowView m))
           \<in> set (callsSince t (emitLayoutEvents mutations t))"
proof -
  have "emitLayoutEvent m = Some (OnLayout e (layoutMetrics (newChildShadowView m)))"
    using assms(2-6) by (simp add: emitLayoutEvent_def)
  then show ?thesis
    using assms(1) by (simp add: callsSince_emitLayoutEvents map_filter_member)
qed

theorem emitLayoutEvents_Insert_changed_metrics_witness:
  "InsertMutation rootView viewA 0 \<in> set deleteThenCreate \<and>
   type (InsertMutation rootView viewA 0) = Insert \<and>
   OnLayout (ViewEventEmitter 2) (metricsOfSize 10 20)
     \<in> set (callsSince exampleTree (emitLayoutEvents deleteThenCreate exampleTree))"
  using emitLayoutEvents_Insert_changed_metrics
    [of "InsertMutation rootView viewA 0" deleteThenCreate "ViewEventEmitter 2" "\<lparr>onLayout = True\<rparr>" exampleTree]
  by (simp add: InsertMutation_def deleteThenCreate_def viewA_def emptyShadowView_def
      EmptyLayoutMetrics_def metricsOfSize_def)

text \<open>
  The claim C3 as stated fails: a Create mutation with a view event emitter, view props that
  ask for layout events and changed metrics leaves the trace as it was.
\<close>

theorem emitLayoutEvents_Create_counterexample:
  "type (CreateMutation rootView viewA 0) = Create \<and>
   dynamic_pointer_cast_ViewEventEmitter (eventEmitter (newChildShadowView (CreateMutation rootView viewA 0)))
     = Some (ViewEventEmitter 2) \<and>
   dynamic_pointer_cast_ViewProps (props (newChildShadowView (CreateMutation rootView viewA 0)))
     = Some \<lparr>onLayout = True\<rparr> \<and>
   layoutMetrics (oldChildShadowView (CreateMutation rootView viewA 0)) \<noteq>
     layoutMetrics (newChildShadowView (CreateMutation rootView viewA 0)) \<and>
   emitLayoutEvents [CreateMutation rootView viewA 0] exampleTree = exampleTree"
  by (simp add: CreateMutation_def viewA_def emptyShadowView_def EmptyLayoutMetrics_def
      metricsOfSize_def emitLayoutEvent_def)

text \<open>
  Claim C4, evaluated on the code. The comparison of old and new layout metrics is made for
  mutations that are not Update only, so an Update mutation whose metrics are equal does
  invoke the layout callback (the first line), as does one whose metrics differ (the second).
\<close>

theorem emitLayoutEvents_Update_equal_metrics_fires:
  "(layoutMetrics (oldChildShadowView (UpdateMutation rootView viewA viewA 0)) =
      layoutMetrics (newChildShadowView (UpdateMutation rootView viewA viewA 0)) \<and>
    callsSince exampleTree (emitLayoutEvents [UpdateMutation rootView viewA viewA 0] exampleTree) =
      [OnLayout (ViewEventEmitter 2) (metricsOfSize 10 20)]) \<and>
   (layoutMetrics (oldChildShadowView (UpdateMutation rootView viewA viewA_resized 0)) \<noteq>
      layoutMetrics (newChildShadowView (UpdateMutation rootView viewA viewA_resized 0)) \<and>
    callsSince exampleTree (emitLayoutEvents [UpdateMutation rootView viewA viewA_resized 0] exampleTree) =
      [OnLayout (ViewEventEmitter 2) (metricsOfSize 30 20)])"
  by (simp add: UpdateMutation_def viewA_def viewA_resized_def callsSince_def emitLayoutEvent_def
      exampleTree_def metricsOfSize_def)

text \<open>
  Claim C10. The skip for props that do not ask for layout events is taken only when the new
  props cast to view props. For an Insert or Update mutation whose new emitter is a view
  event emitter and whose new props do not cast (null, or of another kind), the props check
  skips nothing: the callback is invoked with the new metrics, unless the mutation is an
  Insert with unchanged metrics.
\<close>

theorem emitLayoutEvents_props_not_ViewProps:
  assumes "m \<in> set mutations"
    and "type m = Insert \<or> type m = Update"
    and "dynamic_pointer_cast_ViewEventEmitter (eventEmitter (newChildShadowView m)) = Some e"
    and "dynamic_pointer_cast_ViewProps (props (newChildShadowView m)) = None"
    and "type m = Update \<or>
         layoutMetrics (oldChildShadowView m) \<noteq> layoutMetrics (newChildShadowView m)"
  shows "OnLayout e (layoutMetrics (newChildShadowView m))
           \<in> set (callsSince t (emitLayoutEvents mutations t))"
proof -
  have "emitLayoutEvent m = Some (OnLayout e (layoutMetrics (newChildShadowView m)))"
    using assms(2-5) by (auto simp: emitLayoutEvent_def)
  then show ?thesis
    using assms(1) by (simp add: callsSince_emitLayoutEvents map_filter_member)
qed

theorem emitLayoutEvents_props_not_ViewProps_witness:
  "dynamic_pointer_cast_ViewProps (props (newChildShadowView (InsertMutation rootView viewB 1))) = None \<and>
   OnLayout (ViewEventEmitter 3) (metricsOfSize 5 5)
     \<in> set (callsSince exampleTree
              (emitLayoutEvents [InsertMutation rootView viewA 0, InsertMutation rootView viewB 1] exampleTree))"
  using emitLayoutEvents_props_not_ViewProps
    [of "InsertMutation rootView viewB 1" "[InsertMutation rootView viewA 0, InsertMutation rootView viewB 1]"
        "ViewEventEmitter 3" exampleTree]
  by (simp add: InsertMutation_def viewB_def emptyShadowView_def
      EmptyLayoutMetrics_def metricsOfSize_def)

section \<open>Completing a commit\<close>

lemma complete_roots_closed:
  "complete_roots E oldRoot newRoot t =
    (let h2 = sealRecursive E newRoot (layout E newRoot (store t));
         ms = calculateShadowViewMutations E h2 oldRoot newRoot
     in if oldRoot \<noteq> rootShadowNode_' t then Some (False, t\<lparr>store := h2\<rparr>)
        else if emittersPresent ms then
          Some (True, t\<lparr>store := h2, rootShadowNode_' := newRoot,
                  trace := trace t @ map Enable (createdEmitters ms) @ map Disable (deletedEmitters ms) @
                     List.map_filter emitLayoutEvent ms @
                     (case delegate_' t of None \<Rightarrow> [] | Some d \<Rightarrow> [ShadowTreeDidCommit d ms])\<rparr>)
        else None)"
  by (simp add: complete_roots_def commit_def toggleEventEmitters_closed emitLayoutEvents_closed Let_def
        split: option.splits)

text \<open>
  Claim C2. \<^verbatim>\<open>complete(oldRootShadowNode, newRootShadowNode)\<close> lays out and seals the
  new root and diffs the two roots. When the inner commit fails (the old root is not the one
  in the slot) the call answers false, and neither the root slot nor the trace changes: no
  layout event, no delegate notification. When the commit succeeds the call answers true, the
  slot holds the new root, and the trace has grown by the emitter toggling, then the layout
  events of the mutation list, then the delegate notification if a delegate is set.
\<close>

theorem complete_all_or_nothing:
  "let h2 = sealRecursive E newRoot (layout E newRoot (store t));
       ms = calculateShadowViewMutations E h2 oldRoot newRoot
   in (oldRoot \<noteq> rootShadowNode_' t \<longrightarrow>
         complete_roots E oldRoot newRoot t = Some (False, t\<lparr>store := h2\<rparr>)) \<and>
      (oldRoot = rootShadowNode_' t \<and> emittersPresent ms \<longrightarrow>
         complete_roots E oldRoot newRoot t =
           Some (True, t\<lparr>store := h2, rootShadowNode_' := newRoot,
                   trace := trace t @ map Enable (createdEmitters ms) @
                      map Disable (deletedEmitters ms) @
                      List.map_filter emitLayoutEvent ms @
                      (case delegate_' t of None \<Rightarrow> [] | Some d \<Rightarrow> [ShadowTreeDidCommit d ms])\<rparr>))"
  by (auto simp: complete_roots_closed Let_def)

theorem complete_all_or_nothing_witness:
  "(0 \<noteq> rootShadowNode_' exampleTree \<and>
    (\<exists>h. complete_roots exampleCollaborators 0 4 exampleTree = Some (False, exampleTree\<lparr>store := h\<rparr>))) \<and>
   (3 = rootShadowNode_' exampleTree \<and>
    (\<exists>h. complete_roots exampleCollaborators 3 4 exampleTree =
      Some (True, exampleTree\<lparr>store := h, rootShadowNode_' := 4,
              trace := [Enable (ViewEventEmitter 2), Disable (ViewEventEmitter 3),
                        OnLayout (ViewEventEmitter 2) (metricsOfSize 10 20),
                        ShadowTreeDidCommit 0 deleteThenCreate]\<rparr>)))"
  using complete_all_or_nothing [of exampleCollaborators 4 exampleTree 0]
    complete_all_or_nothing [of exampleCollaborators 4 exampleTree 3]
  by (simp add: Let_def exampleTree_def exampleCollaborators_def)

lemma deref_append: "deref h r = Some n \<Longrightarrow> deref (h @ xs) r = Some n"
  by (auto simp: deref_def nth_append split: if_splits)

lemma complete_children_closed:
  assumes "deref (store t) (rootShadowNode_' t) = Some rootN"
  shows "complete_children E cs t =
     complete_roots E (rootShadowNode_' t) (length (store t))
       (t\<lparr>store := store t @ [copyWithFragment rootN (noFragment\<lparr>children := cs\<rparr>)]\<rparr>)"
  using assms by (simp add: complete_children_def getRootShadowNode_def make_shared_def)

section \<open>Measuring\<close>

text \<open>
  Claim C9. \<^verbatim>\<open>measure\<close> clones the current root with props that carry the given
  constraints and context, lays the clone out and answers the size of its frame. The root
  slot, the delegate and the trace are as before (only the store has grown by the clone, on
  which the layout has acted), and the diff plays no part in the result: no commit, no
  mutation list. The root must be a live root node with root props, and the layout must not
  deallocate objects.
\<close>

theorem measure_pure:
  assumes "deref (store t) (rootShadowNode_' t) = Some rootN"
    and "getProps rootN = RootPropsObj vp lc0 ctx0"
    and "keepsAllocated (layout E)"
  shows "let r' = length (store t);
             candidate = copyWithFragment rootN (noFragment\<lparr>ShadowNodeFragment.props := Some (RootPropsObj vp lc ctx)\<rparr>);
             h' = layout E r' (store t @ [candidate])
         in measure' E lc ctx t = Some (size' (frame (getLayoutMetrics (h' ! r'))), t\<lparr>store := h'\<rparr>) \<and>
            measure' (E\<lparr>calculateShadowViewMutations := d\<rparr>) lc ctx t = measure' E lc ctx t"
proof -
  let ?c = "copyWithFragment rootN (noFragment\<lparr>ShadowNodeFragment.props := Some (RootPropsObj vp lc ctx)\<rparr>)"
  have "length (store t @ [?c]) \<le> length (layout E (length (store t)) (store t @ [?c]))"
    using assms(3) unfolding keepsAllocated_def by blast
  then have "length (store t) < length (layout E (length (store t)) (store t @ [?c]))"
    by simp
  then show ?thesis
    using assms(1,2)
    by (simp add: measure'_def cloneRootShadowNode_def getRootShadowNode_def make_shared_def
        deref_def Let_def)
qed

theorem measure_pure_witness:
  "deref (store exampleTree) (rootShadowNode_' exampleTree) = Some rootNode \<and>
   keepsAllocated (layout exampleCollaborators) \<and>
   map_option fst (measure' exampleCollaborators exampleConstraints exampleContext exampleTree) = Some \<lparr>width = 100, height = 50\<rparr> \<and>
   map_option (rootShadowNode_' \<circ> snd) (measure' exampleCollaborators exampleConstraints exampleContext exampleTree) = Some 3 \<and>
   map_option (trace \<circ> snd) (measure' exampleCollaborators exampleConstraints exampleContext exampleTree) = Some []"
proof -
  have r: "deref (store exampleTree) (rootShadowNode_' exampleTree) = Some rootNode"
    by (simp add: exampleTree_def exampleStore_def deref_def)
  have p: "getProps rootNode = RootPropsObj \<lparr>onLayout = False\<rparr>
                   \<lparr>minimumSize = \<lparr>width = 0, height = 0\<rparr>, maximumSize = \<lparr>width = 100, height = 100\<rparr>\<rparr>
                   \<lparr>absolutePosition = (0, 0)\<rparr>"
    by (simp add: rootNode_def)
  have s: "length (store exampleTree) = 5"
    by (simp add: exampleTree_def exampleStore_def)
  have "map_option fst (measure' exampleCollaborators exampleConstraints exampleContext exampleTree) = Some \<lparr>width = 100, height = 50\<rparr> \<and>
   map_option (rootShadowNode_' \<circ> snd) (measure' exampleCollaborators exampleConstraints exampleContext exampleTree) = Some 3 \<and>
   map_option (trace \<circ> snd) (measure' exampleCollaborators exampleConstraints exampleContext exampleTree) = Some []"
    using measure_pure [OF r p ex_keeps(1), of exampleConstraints exampleContext]
    by (simp add: Let_def s ex_layout metricsOfSize_def) (simp add: exampleTree_def)
  then show ?thesis
    using r ex_keeps(1) by simp
qed

section \<open>Targeted replacement\<close>

text \<open>
  Claim C6. When the ancestor path constructed for the old node from the current root is
  empty, \<^verbatim>\<open>completeByReplacingShadowNode\<close> answers false and leaves everything as it
  was: the root slot, the store and the trace (no commit, no notification).
\<close>

theorem completeByReplacingShadowNode_unreachable:
  assumes "constructAncestorPath E (store t) oldShadowNode (getRootShadowNode t) = []"
  shows "completeByReplacingShadowNode E oldShadowNode newShadowNode t = Some (False, t)"
  using assms by (simp add: completeByReplacingShadowNode_def)

theorem completeByReplacingShadowNode_unreachable_witness:
  "constructAncestorPath exampleCollaborators (store exampleTree) 4 (getRootShadowNode exampleTree) = [] \<and>
   completeByReplacingShadowNode exampleCollaborators 4 1 exampleTree = Some (False, exampleTree)"
  using completeByReplacingShadowNode_unreachable [of exampleCollaborators exampleTree 4 1]
  by (simp add: exampleCollaborators_def exampleTree_def getRootShadowNode_def ex_path_detached)

lemma rebuildAncestors_extends:
  "rebuildAncestors ancestors oc nc sc h = Some (sc', h') \<Longrightarrow>
     length h' = length h + length ancestors \<and> take (length h) h' = h"
proof (induction ancestors arbitrary: oc nc sc h)
  case Nil
  then show ?case by simp
next
  case (Cons a ancestors)
  from Cons.prems obtain n where n: "deref h a = Some n"
    by (auto split: option.splits)
  let ?cs = "replace (getChildren n) oc nc"
  let ?h1 = "h @ [copyWithFragment n (noFragment\<lparr>children := Some ?cs\<rparr>)]"
  from Cons.prems n have "rebuildAncestors ancestors a (length h) (Some ?cs) ?h1 = Some (sc', h')"
    by (simp add: clone_def make_shared_def Let_def)
  from Cons.IH [OF this] have "length h' = length ?h1 + length ancestors" and t: "take (length ?h1) h' = ?h1"
    by simp_all
  moreover have "take (length h) h' = take (length h) (take (length ?h1) h')"
    by (simp add: min_def)
  ultimately show ?case by simp
qed

text \<open>
  Claim C7. Let the current root have the children \<open>[A, B, C]\<close>, with \<open>B\<close> distinct from
  its siblings and the ancestor path of \<open>B\<close> being the root alone. Then replacing \<open>B\<close> by
  \<open>B'\<close> succeeds and commits a root that is a fresh object (its reference did not exist
  before). The store handed to layout and sealing is the old store, every cell untouched,
  followed by the clone the loop made of the root and by the new root, both with the child
  list \<open>[A, B', C]\<close>: the same references \<open>A\<close> and \<open>C\<close> as before. Provided layout and
  sealing keep child lists and deallocate nothing, the committed root has these children.
  The lemma before it covers a path of any length: the loop only appends one clone per
  ancestor.
\<close>

theorem completeByReplacingShadowNode_middle_child:
  assumes root: "deref (store t) (rootShadowNode_' t) = Some rootN"
    and kids: "getChildren rootN = [A, B, C]" "A \<noteq> B" "C \<noteq> B"
    and path: "constructAncestorPath E (store t) B (rootShadowNode_' t) = [rootShadowNode_' t]"
    and ext: "keepsChildren (layout E)" "keepsAllocated (layout E)" "keepsChildren (sealRecursive E)"
      "diffEmittersPresent E"
  shows "\<exists>t'. completeByReplacingShadowNode E B B' t = Some (True, t') \<and>
           rootShadowNode_' t' = Suc (length (store t)) \<and>
           store t' =
             (let candidate = copyWithFragment rootN (noFragment\<lparr>children := Some [A, B', C]\<rparr>)
              in sealRecursive E (rootShadowNode_' t')
                   (layout E (rootShadowNode_' t') (store t @ [candidate, candidate]))) \<and>
           getChildren (store t' ! rootShadowNode_' t') = [A, B', C]"
proof -
  let ?r = "rootShadowNode_' t"
  let ?c = "copyWithFragment rootN (noFragment\<lparr>children := Some [A, B', C]\<rparr>)"
  let ?h1 = "store t @ [?c]"
  let ?h2 = "store t @ [?c, ?c]"
  let ?r' = "Suc (length (store t))"
  let ?h3 = "layout E ?r' ?h2"
  let ?h4 = "sealRecursive E ?r' ?h3"
  let ?ms = "calculateShadowViewMutations E ?h4 ?r ?r'"
  have rep: "replace (getChildren rootN) B B' = [A, B', C]"
    using kids by (simp add: replace_def)
  have loop: "rebuildAncestors [?r] B B' None (store t) = Some (Some [A, B', C], ?h1)"
    using root rep by (simp add: clone_def make_shared_def Let_def)
  have root1: "deref ?h1 ?r = Some rootN"
    using root by (rule deref_append)
  have cc: "complete_children E (Some [A, B', C]) (t\<lparr>store := ?h1\<rparr>) =
              complete_roots E ?r ?r' (t\<lparr>store := ?h2\<rparr>)"
    using complete_children_closed [of "t\<lparr>store := ?h1\<rparr>" rootN E "Some [A, B', C]"] root1
    by simp
  have em: "emittersPresent ?ms"
    using ext(4) unfolding diffEmittersPresent_def by blast
  have res: "completeByReplacingShadowNode E B B' t =
               complete_roots E ?r ?r' (t\<lparr>store := ?h2\<rparr>)"
    using path loop cc by (simp add: completeByReplacingShadowNode_def getRootShadowNode_def)
  have in2: "?r' < length ?h2" by simp
  have k3: "getChildren (?h3 ! ?r') = getChildren (?h2 ! ?r')"
    using ext(1) in2 unfolding keepsChildren_def by blast
  have "length ?h2 \<le> length ?h3"
    using ext(2) unfolding keepsAllocated_def by blast
  then have in3: "?r' < length ?h3" by simp
  have k4: "getChildren (?h4 ! ?r') = getChildren (?h3 ! ?r')"
    using ext(3) in3 unfolding keepsChildren_def by blast
  have "?h2 ! ?r' = ?c"
    by (simp add: nth_append)
  then have kids': "getChildren (?h4 ! ?r') = [A, B', C]"
    using k3 k4 by (simp add: copyWithFragment_def noFragment_def)
  show ?thesis
    using res em kids' by (simp add: complete_roots_closed Let_def)
qed

theorem completeByReplacingShadowNode_middle_child_witness:
  "deref (store exampleTree) (rootShadowNode_' exampleTree) = Some rootNode \<and>
   getChildren rootNode = [0, 1, 2] \<and>
   constructAncestorPath treeCollaborators (store exampleTree) 1 (rootShadowNode_' exampleTree) = [3] \<and>
   (\<exists>t'. completeByReplacingShadowNode treeCollaborators 1 4 exampleTree = Some (True, t') \<and>
      rootShadowNode_' t' = 6 \<and> getChildren (store t' ! 6) = [0, 4, 2])"
proof -
  have k: "getChildren rootNode = [0, 1, 2]"
    by (simp add: rootNode_def)
  have p: "constructAncestorPath treeCollaborators (store exampleTree) 1 (rootShadowNode_' exampleTree)
             = [rootShadowNode_' exampleTree]"
    using ex_path_middle by (simp add: treeCollaborators_def exampleCollaborators_def exampleTree_def)
  have l: "length (store exampleTree) = 5"
    by (simp add: exampleTree_def exampleStore_def)
  have r3: "rootShadowNode_' exampleTree = 3"
    by (simp add: exampleTree_def)
  show ?thesis
    using completeByReplacingShadowNode_middle_child
      [OF ex_root k _ _ p tree_keeps(2) tree_keeps(1) tree_keeps(3) tree_keeps(4), of 4]
      ex_root k p
    by (auto simp: l r3)
qed

section \<open>Teardown\<close>

text \<open>
  Claim C8. The teardown commit of the destructor answers true whenever the root slot holds
  a live node: the base it reads is the root the inner commit compares with. The installed
  root is a fresh clone of the old one with an empty child list, and the trace grows by the
  toggling of the mutations the diff reports between the old root and that clone (disabling
  the emitter of every view reported deleted), the layout events, and the delegate
  notification. The diff must report no created or deleted view with a null emitter.
\<close>

theorem ShadowTree_destructor_commits:
  assumes root: "deref (store t) (rootShadowNode_' t) = Some rootN"
    and diff: "diffEmittersPresent E"
  shows "let r' = length (store t);
             h' = sealRecursive E r'
                    (layout E r' (store t @ [copyWithFragment rootN (noFragment\<lparr>children := Some []\<rparr>)]));
             ms = calculateShadowViewMutations E h' (rootShadowNode_' t) r'
         in ShadowTree_destructor E t =
              Some (True, t\<lparr>store := h', rootShadowNode_' := r',
                      trace := trace t @ map Enable (createdEmitters ms) @
                        map Disable (deletedEmitters ms) @
                        List.map_filter emitLayoutEvent ms @
                        (case delegate_' t of None \<Rightarrow> [] | Some d \<Rightarrow> [ShadowTreeDidCommit d ms])\<rparr>)"
proof -
  let ?r' = "length (store t)"
  let ?h1 = "store t @ [copyWithFragment rootN (noFragment\<lparr>children := Some []\<rparr>)]"
  let ?h2 = "sealRecursive E ?r' (layout E ?r' ?h1)"
  have "emittersPresent (calculateShadowViewMutations E ?h2 (rootShadowNode_' t) ?r')"
    using diff unfolding diffEmittersPresent_def by blast
  then show ?thesis
    by (simp add: ShadowTree_destructor_def complete_children_closed [OF root]
        complete_roots_closed Let_def)
qed

theorem ShadowTree_destructor_commits_witness:
  "deref (store exampleTree) (rootShadowNode_' exampleTree) = Some rootNode \<and>
   diffEmittersPresent treeCollaborators \<and>
   map_option fst (ShadowTree_destructor treeCollaborators exampleTree) = Some True \<and>
   map_option (rootShadowNode_' \<circ> snd) (ShadowTree_destructor treeCollaborators exampleTree) = Some 5 \<and>
   map_option (trace \<circ> snd) (ShadowTree_destructor treeCollaborators exampleTree) =
     Some [Disable (ViewEventEmitter 2), Disable (ViewEventEmitter 3), Disable (ViewEventEmitter 4),
           ShadowTreeDidCommit 0 teardownMutations]"
proof -
  have l: "length exampleStore = 5" "store exampleTree = exampleStore"
    "rootShadowNode_' exampleTree = 3" "trace exampleTree = []" "delegate_' exampleTree = Some 0"
    by (simp_all add: exampleTree_def exampleStore_def)
  have d: "calculateShadowViewMutations treeCollaborators = childDiff"
    by (simp add: treeCollaborators_def)
  show ?thesis
    using ShadowTree_destructor_commits [OF ex_root tree_keeps(4)] ex_root tree_keeps(4)
    by (simp add: Let_def l d ex_teardown_diff ex_teardown_calls)
qed

end
